theory Spec2Isabelle
  imports Complex_Main
begin

section \<open>Python values, attribute namespaces and exceptions\<close>

text \<open>
  The harness \<^verbatim>\<open>hw5_base.py\<close> works on an \<^verbatim>\<open>argparse.Namespace\<close>: a set of named
  attributes that are read with \<^verbatim>\<open>args.name\<close> (AttributeError when the name is absent)
  and written with \<^verbatim>\<open>setattr\<close>. It is a finite map from attribute names to values;
  the values are \<^verbatim>\<open>None\<close>, bools, ints, floats, strings and lists, as a command-line
  parser produces them.
  A Python float is a rational number or one of the three special values; comparisons
  of floats and ints with each other are exact in Python, so this loses nothing for
  the comparisons of \<^verbatim>\<open>check_args\<close>.
\<close>

datatype pyfloat = Fin rat | PosInf | NegInf | NaN

datatype pyval = PNone | PBool bool | PInt int | PFloat pyfloat | PStr string | PList "pyval list"

text \<open>
  Exceptions are values. An AssertionError carries the message template of the
  \<^verbatim>\<open>assert\<close> that failed, an AttributeError the name of the missing attribute, a
  FileNotFoundError the path that could not be opened.
  \<open>Unmodelled\<close> marks behaviour that lies outside this development: the decimal
  representation of a float, and what the job iterator or an external library does with
  a value that the specification and the sources say nothing about.
\<close>

datatype error =
    AttributeError string
  | AssertionError string
  | TypeError
  | FileNotFoundError string
  | Unmodelled

type_synonym args = "string \<rightharpoonup> pyval"

definition getattr :: "args \<Rightarrow> string \<Rightarrow> error + pyval" where
  "getattr a n = (case a n of None \<Rightarrow> Inl (AttributeError n) | Some v \<Rightarrow> Inr v)"

definition setattr :: "args \<Rightarrow> string \<Rightarrow> pyval \<Rightarrow> args" where
  "setattr a n v = a(n \<mapsto> v)"

definition bindE :: "error + 'a \<Rightarrow> ('a \<Rightarrow> error + 'b) \<Rightarrow> error + 'b" where
  "bindE m f = (case m of Inl e \<Rightarrow> Inl e | Inr x \<Rightarrow> f x)"

subsection \<open>Comparison of a value with a number\<close>

text \<open>
  Python's \<^verbatim>\<open><\<close> and \<^verbatim>\<open>></\<close> between a value and a numeric constant: bools count as
  0 and 1, NaN compares false with everything, None, strings and lists raise TypeError.
\<close>

fun as_number :: "pyval \<Rightarrow> pyfloat option" where
  "as_number (PBool b) = Some (Fin (if b then 1 else 0))"
| "as_number (PInt i) = Some (Fin (of_int i))"
| "as_number (PFloat f) = Some f"
| "as_number PNone = None"
| "as_number (PStr s) = None"
| "as_number (PList vs) = None"

fun float_lt :: "pyfloat \<Rightarrow> pyfloat \<Rightarrow> bool" where
  "float_lt NaN y = False"
| "float_lt x NaN = False"
| "float_lt (Fin x) (Fin y) = (x < y)"
| "float_lt (Fin x) PosInf = True"
| "float_lt (Fin x) NegInf = False"
| "float_lt PosInf y = False"
| "float_lt NegInf NegInf = False"
| "float_lt NegInf y = True"

definition py_lt :: "pyval \<Rightarrow> rat \<Rightarrow> error + bool" where
  "py_lt v c = (case as_number v of None \<Rightarrow> Inl TypeError | Some x \<Rightarrow> Inr (float_lt x (Fin c)))"

definition py_gt :: "pyval \<Rightarrow> rat \<Rightarrow> error + bool" where
  "py_gt v c = (case as_number v of None \<Rightarrow> Inl TypeError | Some x \<Rightarrow> Inr (float_lt (Fin c) x))"

definition py_ge :: "pyval \<Rightarrow> rat \<Rightarrow> error + bool" where
  "py_ge v c = (case as_number v of None \<Rightarrow> Inl TypeError
     | Some x \<Rightarrow> Inr (float_lt (Fin c) x \<or> x = Fin c))"


subsection \<open>Conversion to text\<close>

text \<open>
  \<^verbatim>\<open>str(x)\<close>, as an f-string and the \<^verbatim>\<open>%s\<close> and \<^verbatim>\<open>%d\<close> conversions use it. The decimal
  form of a float and the text of a list are not modelled.
\<close>

definition digit_char :: "nat \<Rightarrow> char" where
  "digit_char d = char_of (48 + d)"

fun str_nat :: "nat \<Rightarrow> string" where
  "str_nat n = (if n < 10 then [digit_char n] else str_nat (n div 10) @ [digit_char (n mod 10)])"

definition str_int :: "int \<Rightarrow> string" where
  "str_int i = (if i < 0 then CHR ''-'' # str_nat (nat (- i)) else str_nat (nat i))"

fun py_str :: "pyval \<Rightarrow> error + string" where
  "py_str PNone = Inr ''None''"
| "py_str (PBool b) = Inr (if b then ''True'' else ''False'')"
| "py_str (PInt i) = Inr (str_int i)"
| "py_str (PFloat f) = Inl Unmodelled"
| "py_str (PStr s) = Inr s"
| "py_str (PList vs) = Inl Unmodelled"

section \<open>Hyperparameter sets\<close>

text \<open>
  A hyperparameter set is a dict from parameter names to ranges of values, in insertion
  order. \<^verbatim>\<open>range(lo, hi)\<close> is the list of the integers from \<open>lo\<close> up to \<open>hi - 1\<close>.
\<close>

type_synonym hyperparameters = "(string \<times> pyval list) list"

definition py_range :: "int \<Rightarrow> int \<Rightarrow> pyval list" where
  "py_range lo hi = map PInt [lo..hi - 1]"

text \<open>
  \<^verbatim>\<open>
  def exp_type_to_hyperparameters(args):
      if args.exp_type == 'rnn' or args.expt_type == 'cnn':
          p = {'rotation': range(0, 5)}
      else:
          assert False, "Unrecognized exp_type (%s)" % args.exp_type
      return p
  \<close>
  The \<^verbatim>\<open>or\<close> is short-circuit: \<^verbatim>\<open>args.expt_type\<close> is read only when the first
  comparison is false.
\<close>

definition exp_type_to_hyperparameters :: "args \<Rightarrow> error + hyperparameters" where
  "exp_type_to_hyperparameters a =
     bindE (getattr a ''exp_type'') (\<lambda>et.
       bindE (if et = PStr ''rnn'' then Inr True
              else bindE (getattr a ''expt_type'') (\<lambda>ett. Inr (ett = PStr ''cnn''))) (\<lambda>c.
         if c then Inr [(''rotation'', py_range 0 5)]
         else Inl (AssertionError ''Unrecognized exp_type (%s)'')))"

section \<open>Checking the arguments\<close>

text \<open>
  \<^verbatim>\<open>
  def check_args(args):
      assert (args.spatial_dropout is None or (
              args.spatial_dropout > 0.0 and args.spatial_dropout < 1)), "Spatial dropout must be between 0 and 1"
      assert (args.lrate > 0.0 and args.lrate < 1), "Lrate must be between 0 and 1"
      assert (args.L1_regularization is None or (
              args.L1_regularization > 0.0 and args.L1_regularization < 1)), "L1_regularization must be between 0 and 1"
      assert (args.L2_regularization is None or (
              args.L2_regularization > 0.0 and args.L2_regularization < 1)), "L2_regularization must be between 0 and 1"
      assert (args.cpus_per_task is None or args.cpus_per_task > 1), "cpus_per_task must be positive or None"
  \<close>
  The function only reads \<open>args\<close>; the model returns the namespace next to the outcome
  so that this can be stated.
\<close>

definition between01 :: "pyval \<Rightarrow> error + bool" where
  \<comment> \<open>\<^verbatim>\<open>v > 0.0 and v < 1\<close>\<close>
  "between01 v = bindE (py_gt v 0) (\<lambda>g. if g then py_lt v 1 else Inr False)"

definition none_or :: "(pyval \<Rightarrow> error + bool) \<Rightarrow> pyval \<Rightarrow> error + bool" where
  \<comment> \<open>\<^verbatim>\<open>v is None or test(v)\<close>\<close>
  "none_or test v = (if v = PNone then Inr True else test v)"

definition py_assert :: "error + bool \<Rightarrow> string \<Rightarrow> error + unit" where
  "py_assert c msg = bindE c (\<lambda>b. if b then Inr () else Inl (AssertionError msg))"

definition check_args_outcome :: "args \<Rightarrow> error + unit" where
  "check_args_outcome a =
     bindE (py_assert (bindE (getattr a ''spatial_dropout'') (none_or between01))
              ''Spatial dropout must be between 0 and 1'') (\<lambda>_.
     bindE (py_assert (bindE (getattr a ''lrate'') between01)
              ''Lrate must be between 0 and 1'') (\<lambda>_.
     bindE (py_assert (bindE (getattr a ''L1_regularization'') (none_or between01))
              ''L1_regularization must be between 0 and 1'') (\<lambda>_.
     bindE (py_assert (bindE (getattr a ''L2_regularization'') (none_or between01))
              ''L2_regularization must be between 0 and 1'') (\<lambda>_.
     py_assert (bindE (getattr a ''cpus_per_task'') (none_or (\<lambda>v. py_gt v 1)))
              ''cpus_per_task must be positive or None''))))"

definition check_args :: "args \<Rightarrow> args \<times> (error + unit)" where
  "check_args a = (a, check_args_outcome a)"

section \<open>The job iterator\<close>

text \<open>
  \<^verbatim>\<open>hw5_base.py\<close> takes the class \<^verbatim>\<open>JobIterator\<close> from the module \<^verbatim>\<open>job_control\<close>, which
  is not part of the sources at hand. The harness uses four of its operations: the
  constructor on a hyperparameter set, \<^verbatim>\<open>get_njobs()\<close>, \<^verbatim>\<open>get_index(i)\<close> and
  \<^verbatim>\<open>set_attributes_by_index(i, obj)\<close>.
\<close>

type_synonym combination = "(string \<times> pyval) list"

text \<open>
  Modelled from the spec: the enumeration of the job iterator, which \<^verbatim>\<open>job_control\<close>
  computes and the sources do not contain. The specification describes a hyperparameter
  sweep as the "enumeration of all combinations of a set of named parameter ranges":
  one combination gives every named parameter one value of its range. The combinations
  are listed with the last parameter varying fastest.
\<close>

fun cartesian :: "hyperparameters \<Rightarrow> combination list" where
  "cartesian [] = [[]]"
| "cartesian ((k, vs) # ps) = concat (map (\<lambda>v. map (\<lambda>c. (k, v) # c) (cartesian ps)) vs)"

record jobiterator =
  params :: hyperparameters
  product :: "combination list"

text \<open>
  Modelled from the spec: the constructor \<^verbatim>\<open>JobIterator(p)\<close> of \<^verbatim>\<open>job_control\<close>, absent from
  the sources; it holds the "Cartesian product of hyperparameters" of \<open>p\<close>.
\<close>

definition JobIterator :: "hyperparameters \<Rightarrow> jobiterator" where
  "JobIterator p = \<lparr>params = p, product = cartesian p\<rparr>"

text \<open>
  Modelled from the spec: \<^verbatim>\<open>get_njobs()\<close> of \<^verbatim>\<open>job_control\<close>, absent from the sources: the
  number of points of the Cartesian product.
\<close>

definition get_njobs :: "jobiterator \<Rightarrow> int" where
  "get_njobs ji = int (length (product ji))"

text \<open>
  Modelled from the spec: \<^verbatim>\<open>get_index(i)\<close> of \<^verbatim>\<open>job_control\<close>, absent from the sources. A job
  index is an "integer identifying one point in a Cartesian product of
  hyperparameters". The specification does not say what an index outside the product,
  or a value that is not an integer, leads to: that is \<open>Unmodelled\<close>.
\<close>

fun get_index :: "jobiterator \<Rightarrow> pyval \<Rightarrow> error + combination" where
  "get_index ji (PInt i) =
     (if 0 \<le> i \<and> i < get_njobs ji then Inr (product ji ! nat i) else Inl Unmodelled)"
| "get_index ji v = Inl Unmodelled"

text \<open>
  Neither the sources nor the specification fix the format of the string by which the
  job iterator describes a combination, so the function that writes it is a parameter
  \<open>describe\<close> of the model.
\<close>

type_synonym describer = "combination \<Rightarrow> string"

text \<open>
  Modelled from the spec: the assignments of \<^verbatim>\<open>set_attributes_by_index\<close> of \<^verbatim>\<open>job_control\<close>,
  absent from the sources: every parameter that the combination names becomes an
  attribute of the object, with the value that the combination gives it.
\<close>

definition set_attributes :: "args \<Rightarrow> combination \<Rightarrow> args" where
  "set_attributes a c = foldl (\<lambda>a' (k, v). setattr a' k v) a c"

text \<open>
  Modelled from the spec: \<^verbatim>\<open>set_attributes_by_index(i, obj)\<close> of \<^verbatim>\<open>job_control\<close>, absent from
  the sources. By the comment at its call in \<^verbatim>\<open>augment_args\<close> it pushes the attributes of
  combination \<open>i\<close> to the object and returns a string that describes them.
\<close>

definition set_attributes_by_index ::
  "describer \<Rightarrow> jobiterator \<Rightarrow> pyval \<Rightarrow> args \<Rightarrow> args \<times> (error + string)" where
  "set_attributes_by_index describe ji i a =
     (case get_index ji i of
        Inl e \<Rightarrow> (a, Inl e)
      | Inr c \<Rightarrow> (set_attributes a c, Inr (describe c)))"

section \<open>Overriding the arguments by the experiment index\<close>

text \<open>
  \<^verbatim>\<open>
  def augment_args(args):
      p = exp_type_to_hyperparameters(args)
      index = args.exp_index
      if index is None:
          return ""
      ji = JobIterator(p)
      print("Total jobs:", ji.get_njobs())
      assert (args.exp_index >= 0 and args.exp_index < ji.get_njobs()), "exp_index out of range"
      print(ji.get_index(args.exp_index))
      return ji.set_attributes_by_index(args.exp_index, args)
  \<close>
  The function changes \<open>args\<close>, so the model returns the namespace with the outcome.
  What is printed is not part of the model, but the call of \<^verbatim>\<open>get_index\<close> for the second
  \<^verbatim>\<open>print\<close> is.
\<close>

definition index_in_range :: "pyval \<Rightarrow> jobiterator \<Rightarrow> error + bool" where
  \<comment> \<open>\<^verbatim>\<open>args.exp_index >= 0 and args.exp_index < ji.get_njobs()\<close>\<close>
  "index_in_range index ji =
     bindE (py_ge index 0) (\<lambda>g. if g then py_lt index (of_int (get_njobs ji)) else Inr False)"

definition augment_args :: "describer \<Rightarrow> args \<Rightarrow> args \<times> (error + string)" where
  "augment_args describe a =
     (case exp_type_to_hyperparameters a of
        Inl e \<Rightarrow> (a, Inl e)
      | Inr p \<Rightarrow>
          (case getattr a ''exp_index'' of
             Inl e \<Rightarrow> (a, Inl e)
           | Inr index \<Rightarrow>
               if index = PNone then (a, Inr [])
               else
                 let ji = JobIterator p in
                 (case py_assert (index_in_range index ji) ''exp_index out of range'' of
                    Inl e \<Rightarrow> (a, Inl e)
                  | Inr _ \<Rightarrow>
                      (case get_index ji index of
                         Inl e \<Rightarrow> (a, Inl e)
                       | Inr _ \<Rightarrow> set_attributes_by_index describe ji index a))))"

section \<open>Names of the output files\<close>

text \<open>
  The body of \<^verbatim>\<open>generate_fname\<close> that encoded the experimental parameters is commented
  out in the source; what runs is
  \<^verbatim>\<open>
  def generate_fname(args, params_str):
      return f'{args.results_path}/{args.exp_type}'
  \<close>
\<close>

definition generate_fname :: "args \<Rightarrow> string \<Rightarrow> error + string" where
  "generate_fname a params_str =
     bindE (getattr a ''results_path'') (\<lambda>rp.
     bindE (py_str rp) (\<lambda>s1.
     bindE (getattr a ''exp_type'') (\<lambda>et.
     bindE (py_str et) (\<lambda>s2.
       Inr (s1 @ ''/'' @ s2)))))"

definition results_fname :: "string \<Rightarrow> string" where
  \<comment> \<open>\<^verbatim>\<open>"%s_results.pkl" % fbase\<close>\<close>
  "results_fname fbase = fbase @ ''_results.pkl''"

section \<open>Checking the completeness of a sweep\<close>

text \<open>
  \<^verbatim>\<open>
  def check_completeness(args):
      p = exp_type_to_hyperparameters(args)
      ji = JobIterator(p)
      print("Total jobs: %d" % ji.get_njobs())
      print("MISSING RUNS:")
      indices = []
      for i in range(ji.get_njobs()):
          params_str = ji.set_attributes_by_index(i, args)
          fbase = generate_fname(args, params_str)
          fname_out = "%s_results.pkl" % (fbase)
          if not os.path.exists(fname_out):
              print("%3d\t%s" % (i, fname_out))
              indices.append(i)
      print("Missing indices (%d): %s" % (len(indices), ','.join(str(x) for x in indices)))
  \<close>
  The file system is the set of the paths that exist. The function returns nothing; its
  result is the report it prints, so the model returns the printed lines together with
  the list \<open>indices\<close> that the last line is made of.
\<close>

type_synonym filesystem = "string set"

definition path_exists :: "filesystem \<Rightarrow> string \<Rightarrow> bool" where
  "path_exists fs f = (f \<in> fs)"

definition pad3 :: "string \<Rightarrow> string" where
  \<comment> \<open>the field width of \<^verbatim>\<open>%3d\<close>\<close>
  "pad3 s = replicate (3 - length s) CHR '' '' @ s"

fun join_commas :: "string list \<Rightarrow> string" where
  "join_commas [] = []"
| "join_commas [s] = s"
| "join_commas (s # t # ss) = s @ '','' @ join_commas (t # ss)"

fun completeness_loop ::
  "describer \<Rightarrow> jobiterator \<Rightarrow> filesystem \<Rightarrow> int list \<Rightarrow> args \<Rightarrow> string list \<times> int list \<Rightarrow>
   args \<times> (error + string list \<times> int list)" where
  "completeness_loop describe ji fs [] a (out, indices) = (a, Inr (out, indices))"
| "completeness_loop describe ji fs (i # rest) a (out, indices) =
     (case set_attributes_by_index describe ji (PInt i) a of
        (a', Inl e) \<Rightarrow> (a', Inl e)
      | (a', Inr params_str) \<Rightarrow>
          (case generate_fname a' params_str of
             Inl e \<Rightarrow> (a', Inl e)
           | Inr fbase \<Rightarrow>
               let fname_out = results_fname fbase in
               if \<not> path_exists fs fname_out
               then completeness_loop describe ji fs rest a'
                      (out @ [pad3 (str_int i) @ [CHR 0x09] @ fname_out], indices @ [i])
               else completeness_loop describe ji fs rest a' (out, indices)))"

definition missing_indices :: "string list \<times> int list \<Rightarrow> string list \<times> int list" where
  \<comment> \<open>the last \<^verbatim>\<open>print\<close>\<close>
  "missing_indices report =
     (case report of (out, indices) \<Rightarrow>
        (out @ [''Missing indices ('' @ str_int (int (length indices)) @ ''): '' @
                join_commas (map str_int indices)],
         indices))"

definition check_completeness ::
  "describer \<Rightarrow> args \<Rightarrow> filesystem \<Rightarrow> args \<times> (error + string list \<times> int list)" where
  "check_completeness describe a fs =
     (case exp_type_to_hyperparameters a of
        Inl e \<Rightarrow> (a, Inl e)
      | Inr p \<Rightarrow>
          let ji = JobIterator p in
          (case completeness_loop describe ji fs [0..get_njobs ji - 1] a
                  ([''Total jobs: '' @ str_int (get_njobs ji), ''MISSING RUNS:''], []) of
             (a', Inl e) \<Rightarrow> (a', Inl e)
           | (a', Inr report) \<Rightarrow> (a', Inr (missing_indices report))))"

section \<open>Running one experiment\<close>




























section \<open>What the properties speak about\<close>

subsection \<open>Rational arguments\<close>

text \<open>
  The conditions on the arguments in the words of their description: a value lies
  strictly between 0 and 1, a value is greater than 1, an attribute is present and its
  value has a property.
\<close>

definition strictly_between01 :: "pyval \<Rightarrow> bool" where
  "strictly_between01 v =
     (case as_number v of None \<Rightarrow> False | Some x \<Rightarrow> float_lt (Fin 0) x \<and> float_lt x (Fin 1))"

definition greater_than_one :: "pyval \<Rightarrow> bool" where
  "greater_than_one v = (case as_number v of None \<Rightarrow> False | Some x \<Rightarrow> float_lt (Fin 1) x)"

definition attr_holds :: "args \<Rightarrow> string \<Rightarrow> (pyval \<Rightarrow> bool) \<Rightarrow> bool" where
  "attr_holds a n P = (case a n of None \<Rightarrow> False | Some v \<Rightarrow> P v)"

definition args_rational :: "args \<Rightarrow> bool" where
  "args_rational a =
     (attr_holds a ''lrate'' strictly_between01 \<and>
      attr_holds a ''spatial_dropout'' (\<lambda>v. v = PNone \<or> strictly_between01 v) \<and>
      attr_holds a ''L1_regularization'' (\<lambda>v. v = PNone \<or> strictly_between01 v) \<and>
      attr_holds a ''L2_regularization'' (\<lambda>v. v = PNone \<or> strictly_between01 v) \<and>
      attr_holds a ''cpus_per_task'' (\<lambda>v. v = PNone \<or> greater_than_one v))"

text \<open>
  The arguments as the command-line parser leaves them: the learning rate is a number,
  each of the other four is a number or \<^verbatim>\<open>None\<close>.
\<close>

definition is_number :: "pyval \<Rightarrow> bool" where
  "is_number v = (as_number v \<noteq> None)"

definition args_typed :: "args \<Rightarrow> bool" where
  "args_typed a =
     (attr_holds a ''lrate'' is_number \<and>
      attr_holds a ''spatial_dropout'' (\<lambda>v. v = PNone \<or> is_number v) \<and>
      attr_holds a ''L1_regularization'' (\<lambda>v. v = PNone \<or> is_number v) \<and>
      attr_holds a ''L2_regularization'' (\<lambda>v. v = PNone \<or> is_number v) \<and>
      attr_holds a ''cpus_per_task'' (\<lambda>v. v = PNone \<or> is_number v))"

definition one_cpu_args :: args where
  "one_cpu_args = map_of
     [(''lrate'', PFloat (Fin (1 / 1000))), (''spatial_dropout'', PNone),
      (''L1_regularization'', PNone), (''L2_regularization'', PFloat (Fin (1 / 2))),
      (''cpus_per_task'', PInt 1)]"

subsection \<open>The Cartesian product of a hyperparameter set\<close>

text \<open>
  In the words of the glossary: a combination of a set of named parameter ranges names
  the same parameters in the same order and gives each a value of its range. The
  Cartesian product is the set of all combinations.
\<close>

definition is_combination :: "hyperparameters \<Rightarrow> combination \<Rightarrow> bool" where
  "is_combination p c = list_all2 (\<lambda>(k, vs) (k', v). k' = k \<and> v \<in> set vs) p c"

subsection \<open>Example arguments\<close>

text \<open>A describer for the examples: the names and the values, joined by underscores.\<close>

fun describe_values :: describer where
  "describe_values [] = []"
| "describe_values ((k, v) # c) =
     k @ ''_'' @ (case py_str v of Inl e \<Rightarrow> ''?'' | Inr s \<Rightarrow> s) @ ''_'' @ describe_values c"

definition rnn_args :: "pyval \<Rightarrow> args" where
  "rnn_args index = map_of
     [(''exp_index'', index), (''exp_type'', PStr ''rnn''), (''results_path'', PStr ''./results'')]"

definition unknown_type_args :: args where
  "unknown_type_args = map_of
     [(''exp_index'', PNone), (''exp_type'', PStr ''mlp''), (''expt_type'', PStr ''mlp'')]"

subsection \<open>The results file of a job\<close>

text \<open>
  The base name and the results file that the loop of \<^verbatim>\<open>check_completeness\<close> computes for
  job \<open>i\<close>, starting from the namespace \<open>a\<close>:
  \<^verbatim>\<open>
      params_str = ji.set_attributes_by_index(i, args)
      fbase = generate_fname(args, params_str)
      fname_out = "%s_results.pkl" % (fbase)
  \<close>
\<close>

definition output_base :: "describer \<Rightarrow> jobiterator \<Rightarrow> args \<Rightarrow> int \<Rightarrow> error + string" where
  "output_base describe ji a i =
     (case set_attributes_by_index describe ji (PInt i) a of
        (a', Inl e) \<Rightarrow> Inl e
      | (a', Inr params_str) \<Rightarrow> generate_fname a' params_str)"

definition results_file :: "describer \<Rightarrow> jobiterator \<Rightarrow> args \<Rightarrow> int \<Rightarrow> error + string" where
  "results_file describe ji a i =
     bindE (output_base describe ji a i) (\<lambda>fbase. Inr (results_fname fbase))"

definition file_missing :: "filesystem \<Rightarrow> error + string \<Rightarrow> bool" where
  "file_missing fs r = (case r of Inl e \<Rightarrow> False | Inr f \<Rightarrow> \<not> path_exists fs f)"

definition missing_line :: "string \<Rightarrow> int \<Rightarrow> string" where
  \<comment> \<open>\<^verbatim>\<open>"%3d\t%s" % (i, fname_out)\<close>\<close>
  "missing_line fname_out i = pad3 (str_int i) @ [CHR 0x09] @ fname_out"

subsection \<open>What a skipped run may do\<close>












section \<open>The exception monad\<close>

lemma bindE_Inr_iff: "bindE m f = Inr y \<longleftrightarrow> (\<exists>x. m = Inr x \<and> f x = Inr y)"
  by (cases m) (simp_all add: bindE_def)

lemma py_assert_ok_iff: "py_assert c msg = Inr () \<longleftrightarrow> c = Inr True"
  by (cases c) (simp_all add: py_assert_def bindE_def)

section \<open>Selecting the hyperparameter set\<close>

lemma exp_type_to_hyperparameters_Inr_iff:
  "exp_type_to_hyperparameters a = Inr p \<longleftrightarrow>
     p = [(''rotation'', py_range 0 5)] \<and>
     (a ''exp_type'' = Some (PStr ''rnn'') \<or>
      a ''exp_type'' \<noteq> None \<and> a ''expt_type'' = Some (PStr ''cnn''))"
  by (auto simp: exp_type_to_hyperparameters_def bindE_def getattr_def split: option.splits)

text \<open>
  C10. When \<open>exp_type\<close> is \<open>'cnn'\<close> and the namespace has no attribute \<open>expt_type\<close>, the
  function raises the AttributeError of the missing attribute \<open>expt_type\<close>: it neither
  returns a hyperparameter set nor fails its assertion. It returns a set only when
  \<open>exp_type\<close> is \<open>'rnn'\<close> or the separate attribute \<open>expt_type\<close> is \<open>'cnn'\<close>, and the set
  is then \<open>{'rotation': range(0, 5)}\<close>.
\<close>

theorem exp_type_cnn_raises_AttributeError:
  "(a ''exp_type'' = Some (PStr ''cnn'') \<and> a ''expt_type'' = None \<longrightarrow>
      exp_type_to_hyperparameters a = Inl (AttributeError ''expt_type'')) \<and>
   (exp_type_to_hyperparameters a = Inr p \<longrightarrow>
      p = [(''rotation'', py_range 0 5)] \<and>
      (a ''exp_type'' = Some (PStr ''rnn'') \<or> a ''expt_type'' = Some (PStr ''cnn'')))"
  by (auto simp: exp_type_to_hyperparameters_def bindE_def getattr_def split: option.splits)

theorem exp_type_cnn_raises_AttributeError_witness:
  "[''exp_type'' \<mapsto> PStr ''cnn''] ''exp_type'' = Some (PStr ''cnn'') \<and>
   [''exp_type'' \<mapsto> PStr ''cnn''] ''expt_type'' = None \<and>
   exp_type_to_hyperparameters [''exp_type'' \<mapsto> PStr ''cnn''] = Inl (AttributeError ''expt_type'')"
  using exp_type_cnn_raises_AttributeError [of "[''exp_type'' \<mapsto> PStr ''cnn'']"] by simp

section \<open>Checking the arguments\<close>

lemma between01_iff: "between01 v = Inr True \<longleftrightarrow> strictly_between01 v"
  by (cases "as_number v")
    (simp_all add: between01_def strictly_between01_def py_gt_def py_lt_def bindE_def)

lemma between01_number: "is_number v \<Longrightarrow> between01 v = Inr (strictly_between01 v)"
  by (cases "as_number v")
    (auto simp: is_number_def between01_def strictly_between01_def py_gt_def py_lt_def bindE_def)

lemma gt1_iff: "py_gt v 1 = Inr True \<longleftrightarrow> greater_than_one v"
  by (cases "as_number v") (simp_all add: greater_than_one_def py_gt_def)

lemma gt1_number: "is_number v \<Longrightarrow> py_gt v 1 = Inr (greater_than_one v)"
  by (cases "as_number v") (auto simp: is_number_def greater_than_one_def py_gt_def)

lemma assert_attr_iff:
  assumes "\<And>v. test v = Inr True \<longleftrightarrow> P v"
  shows "py_assert (bindE (getattr a n) test) msg = Inr () \<longleftrightarrow> attr_holds a n P"
  using assms
  by (cases "a n") (simp_all add: py_assert_ok_iff getattr_def bindE_def attr_holds_def)

lemma none_or_iff:
  assumes "\<And>v. test v = Inr True \<longleftrightarrow> P v"
  shows "none_or test v = Inr True \<longleftrightarrow> v = PNone \<or> P v"
  using assms by (simp add: none_or_def)

lemma check_args_outcome_ok_iff: "check_args_outcome a = Inr () \<longleftrightarrow> args_rational a"
  unfolding check_args_outcome_def args_rational_def bindE_Inr_iff
  by (simp add: assert_attr_iff [OF between01_iff]
      assert_attr_iff [OF none_or_iff [OF between01_iff]]
      assert_attr_iff [OF none_or_iff [OF gt1_iff]]) blast

lemma assert_attr_typed:
  assumes "attr_holds a n T" and "\<And>v. T v \<Longrightarrow> test v = Inr (P v)"
  shows "py_assert (bindE (getattr a n) test) msg =
           (if attr_holds a n P then Inr () else Inl (AssertionError msg))"
  using assms
  by (cases "a n") (simp_all add: py_assert_def getattr_def bindE_def attr_holds_def)

lemma none_or_typed:
  assumes "is_number v \<Longrightarrow> test v = Inr (P v)" and "v = PNone \<or> is_number v"
  shows "none_or test v = Inr (v = PNone \<or> P v)"
  using assms by (auto simp: none_or_def)

lemma check_args_outcome_typed:
  assumes "args_typed a"
  shows "check_args_outcome a = Inr () \<or> (\<exists>m. check_args_outcome a = Inl (AssertionError m))"
proof -
  have 1: "attr_holds a ''spatial_dropout'' (\<lambda>v. v = PNone \<or> is_number v)"
    and 2: "attr_holds a ''lrate'' is_number"
    and 3: "attr_holds a ''L1_regularization'' (\<lambda>v. v = PNone \<or> is_number v)"
    and 4: "attr_holds a ''L2_regularization'' (\<lambda>v. v = PNone \<or> is_number v)"
    and 5: "attr_holds a ''cpus_per_task'' (\<lambda>v. v = PNone \<or> is_number v)"
    using assms by (simp_all add: args_typed_def)
  have opt01: "\<And>v. v = PNone \<or> is_number v \<Longrightarrow>
      none_or between01 v = Inr (v = PNone \<or> strictly_between01 v)"
    by (rule none_or_typed) (simp_all add: between01_number)
  have optgt: "\<And>v. v = PNone \<or> is_number v \<Longrightarrow>
      none_or (\<lambda>v. py_gt v 1) v = Inr (v = PNone \<or> greater_than_one v)"
    by (rule none_or_typed) (simp_all add: gt1_number)
  have e1: "py_assert (bindE (getattr a ''spatial_dropout'') (none_or between01)) m1 =
      (if attr_holds a ''spatial_dropout'' (\<lambda>v. v = PNone \<or> strictly_between01 v)
       then Inr () else Inl (AssertionError m1))" for m1
    using 1 opt01 by (rule assert_attr_typed)
  have e2: "py_assert (bindE (getattr a ''lrate'') between01) m2 =
      (if attr_holds a ''lrate'' strictly_between01 then Inr () else Inl (AssertionError m2))" for m2
    using 2 between01_number by (rule assert_attr_typed)
  have e3: "py_assert (bindE (getattr a ''L1_regularization'') (none_or between01)) m3 =
      (if attr_holds a ''L1_regularization'' (\<lambda>v. v = PNone \<or> strictly_between01 v)
       then Inr () else Inl (AssertionError m3))" for m3
    using 3 opt01 by (rule assert_attr_typed)
  have e4: "py_assert (bindE (getattr a ''L2_regularization'') (none_or between01)) m4 =
      (if attr_holds a ''L2_regularization'' (\<lambda>v. v = PNone \<or> strictly_between01 v)
       then Inr () else Inl (AssertionError m4))" for m4
    using 4 opt01 by (rule assert_attr_typed)
  have e5: "py_assert (bindE (getattr a ''cpus_per_task'') (none_or (\<lambda>v. py_gt v 1))) m5 =
      (if attr_holds a ''cpus_per_task'' (\<lambda>v. v = PNone \<or> greater_than_one v)
       then Inr () else Inl (AssertionError m5))" for m5
    using 5 optgt by (rule assert_attr_typed)
  show ?thesis
    unfolding check_args_outcome_def e1 e2 e3 e4 e5 by (simp add: bindE_def)
qed

lemma one_cpu_not_rational: "a ''cpus_per_task'' = Some (PInt 1) \<Longrightarrow> \<not> args_rational a"
  by (simp add: args_rational_def attr_holds_def greater_than_one_def)

text \<open>
  C9. \<open>check_args\<close> returns normally if and only if the learning rate lies strictly
  between 0 and 1, each of \<open>spatial_dropout\<close>, \<open>L1_regularization\<close> and
  \<open>L2_regularization\<close> is \<^verbatim>\<open>None\<close> or lies strictly between 0 and 1, and \<open>cpus_per_task\<close>
  is \<^verbatim>\<open>None\<close> or greater than 1. It never changes \<open>args\<close>. On arguments of the parser's
  types every other outcome is an AssertionError; one CPU per task is among them.
\<close>

theorem check_args_returns_iff_rational:
  "(snd (check_args a) = Inr () \<longleftrightarrow> args_rational a) \<and>
   fst (check_args a) = a \<and>
   (args_typed a \<and> \<not> args_rational a \<longrightarrow> (\<exists>m. snd (check_args a) = Inl (AssertionError m))) \<and>
   (args_typed a \<and> a ''cpus_per_task'' = Some (PInt 1) \<longrightarrow>
      (\<exists>m. snd (check_args a) = Inl (AssertionError m)))"
  using check_args_outcome_typed [of a] one_cpu_not_rational [of a]
  by (auto simp: check_args_def check_args_outcome_ok_iff)

theorem check_args_returns_iff_rational_witness:
  "args_typed one_cpu_args \<and> \<not> args_rational one_cpu_args \<and>
   one_cpu_args ''cpus_per_task'' = Some (PInt 1) \<and>
   fst (check_args one_cpu_args) = one_cpu_args \<and>
   (\<exists>m. snd (check_args one_cpu_args) = Inl (AssertionError m))"
proof -
  have t: "args_typed one_cpu_args"
    by (simp add: one_cpu_args_def args_typed_def attr_holds_def is_number_def)
  have c: "one_cpu_args ''cpus_per_task'' = Some (PInt 1)"
    by (simp add: one_cpu_args_def)
  show ?thesis
    using t c check_args_returns_iff_rational [of one_cpu_args] by auto
qed

section \<open>The enumeration of the job iterator\<close>

lemma set_cartesian: "c \<in> set (cartesian p) \<longleftrightarrow> is_combination p c"
proof (induction p arbitrary: c)
  case Nil
  show ?case by (simp add: is_combination_def)
next
  case (Cons kv ps)
  obtain k vs where kv: "kv = (k, vs)" by (cases kv)
  show ?case
    using Cons.IH by (auto simp: kv is_combination_def list_all2_Cons1)
qed

lemma distinct_block:
  "distinct cs \<Longrightarrow> distinct vs \<Longrightarrow> distinct (concat (map (\<lambda>v. map (\<lambda>c. (k, v) # c) cs) vs))"
  by (induction vs) (auto simp: distinct_map inj_on_def)

lemma distinct_cartesian: "\<forall>(k, vs) \<in> set p. distinct vs \<Longrightarrow> distinct (cartesian p)"
proof (induction p)
  case Nil
  show ?case by simp
next
  case (Cons kv ps)
  obtain k vs where kv: "kv = (k, vs)" by (cases kv)
  from Cons show ?case by (simp add: kv distinct_block)
qed

lemma length_cartesian: "length (cartesian p) = prod_list (map (\<lambda>(k, vs). length vs) p)"
proof (induction p)
  case Nil
  show ?case by simp
next
  case (Cons kv ps)
  obtain k vs where kv: "kv = (k, vs)" by (cases kv)
  have "length (concat (map (\<lambda>v. map (\<lambda>c. (k, v) # c) cs) vs)) = length vs * length cs"
    for cs :: "combination list"
    by (induction vs) simp_all
  with Cons show ?case by (simp add: kv)
qed

lemma get_index_bij:
  assumes "distinct (product ji)"
  shows "bij_betw (\<lambda>j. get_index ji (PInt j)) {0..<get_njobs ji}
           ((Inr :: combination \<Rightarrow> error + combination) ` set (product ji))"
proof (rule bij_betwI')
  fix x y assume "x \<in> {0..<get_njobs ji}" "y \<in> {0..<get_njobs ji}"
  then show "get_index ji (PInt x) = get_index ji (PInt y) \<longleftrightarrow> x = y"
    using assms by (auto simp: get_njobs_def nth_eq_iff_index_eq)
next
  fix x assume "x \<in> {0..<get_njobs ji}"
  then show "get_index ji (PInt x) \<in> Inr ` set (product ji)"
    by (auto simp: get_njobs_def)
next
  fix y :: "error + combination" assume "y \<in> Inr ` set (product ji)"
  then obtain c where c: "y = Inr c" "c \<in> set (product ji)" by auto
  then obtain n where n: "n < length (product ji)" "product ji ! n = c"
    by (auto simp: in_set_conv_nth)
  then have "int n \<in> {0..<get_njobs ji}" "y = get_index ji (PInt (int n))"
    by (auto simp: get_njobs_def c)
  then show "\<exists>x\<in>{0..<get_njobs ji}. y = get_index ji (PInt x)" by blast
qed

lemma set_attributes_conv: "set_attributes a c = a ++ map_of (rev c)"
proof (induction c arbitrary: a)
  case Nil
  show ?case by (simp add: set_attributes_def)
next
  case (Cons kv c)
  obtain k v where kv: "kv = (k, v)" by (cases kv)
  have "set_attributes a (kv # c) = set_attributes (a(k \<mapsto> v)) c"
    by (simp add: set_attributes_def setattr_def kv)
  also have "\<dots> = a(k \<mapsto> v) ++ map_of (rev c)" by (rule Cons.IH)
  also have "\<dots> = a ++ map_of (rev (kv # c))"
    by (simp add: kv fun_eq_iff map_add_def split: option.splits)
  finally show ?case .
qed

subsection \<open>The sweep over the rotations\<close>

lemma hyper_rotation:
  "exp_type_to_hyperparameters a = Inr p \<Longrightarrow> p = [(''rotation'', py_range 0 5)]"
  by (simp add: exp_type_to_hyperparameters_Inr_iff)

lemma py_range_0_5: "py_range 0 5 = [PInt 0, PInt 1, PInt 2, PInt 3, PInt 4]"
  by (simp add: py_range_def upto.simps)

lemma product_rotation:
  "product (JobIterator [(''rotation'', py_range 0 5)]) =
     [[(''rotation'', PInt 0)], [(''rotation'', PInt 1)], [(''rotation'', PInt 2)],
      [(''rotation'', PInt 3)], [(''rotation'', PInt 4)]]"
  by (simp add: JobIterator_def py_range_0_5)

lemma njobs_rotation: "get_njobs (JobIterator [(''rotation'', py_range 0 5)]) = 5"
  by (simp add: get_njobs_def product_rotation)

lemma distinct_product_rotation: "distinct (product (JobIterator [(''rotation'', py_range 0 5)]))"
  by (simp add: product_rotation)

lemma singleton_product_rotation:
  assumes "c \<in> set (product (JobIterator [(''rotation'', py_range 0 5)]))"
  shows "\<exists>v. c = [(''rotation'', v)]"
  using assms by (auto simp: product_rotation)

lemma nth_product_rotation:
  assumes "0 \<le> i" and "i < 5"
  shows "\<exists>v. product (JobIterator [(''rotation'', py_range 0 5)]) ! nat i = [(''rotation'', v)]"
proof -
  have "nat i < length (product (JobIterator [(''rotation'', py_range 0 5)]))"
    using assms by (simp add: product_rotation)
  then show ?thesis
    by (intro singleton_product_rotation nth_mem)
qed

section \<open>Overriding the arguments\<close>

lemma index_in_range_int: "index_in_range (PInt i) ji = Inr (0 \<le> i \<and> i < get_njobs ji)"
  by (auto simp: index_in_range_def py_ge_def py_lt_def bindE_def)

lemma augment_no_index:
  assumes "a ''exp_index'' = Some PNone"
  shows "augment_args describe a =
           (a, case exp_type_to_hyperparameters a of Inl e \<Rightarrow> Inl e | Inr p \<Rightarrow> Inr [])"
  using assms
  by (cases "exp_type_to_hyperparameters a") (simp_all add: augment_args_def getattr_def)

lemma augment_int_index:
  assumes "exp_type_to_hyperparameters a = Inr p" and "a ''exp_index'' = Some (PInt i)"
  shows "augment_args describe a =
           (if 0 \<le> i \<and> i < get_njobs (JobIterator p)
            then (set_attributes a (product (JobIterator p) ! nat i),
                  Inr (describe (product (JobIterator p) ! nat i)))
            else (a, Inl (AssertionError ''exp_index out of range'')))"
  using assms
  by (simp add: augment_args_def getattr_def index_in_range_int py_assert_def bindE_def
      set_attributes_by_index_def Let_def)

lemma hyper_rnn_args: "exp_type_to_hyperparameters (rnn_args v) = Inr [(''rotation'', py_range 0 5)]"
  by (simp add: rnn_args_def exp_type_to_hyperparameters_def bindE_def getattr_def)

lemma index_rnn_args: "rnn_args v ''exp_index'' = Some v"
  by (simp add: rnn_args_def)

text \<open>
  C8, as the source has it. The hyperparameter set is selected before the index is
  looked at, so with \<open>exp_index\<close> \<^verbatim>\<open>None\<close> the function returns the empty string when
  \<open>exp_type_to_hyperparameters\<close> returns a set, and raises what that function raises
  otherwise. In both cases no attribute of \<open>args\<close> changes.
\<close>

theorem augment_args_without_index:
  assumes "a ''exp_index'' = Some PNone"
  shows "fst (augment_args describe a) = a \<and>
         snd (augment_args describe a) =
           (case exp_type_to_hyperparameters a of Inl e \<Rightarrow> Inl e | Inr p \<Rightarrow> Inr [])"
  using assms by (simp add: augment_no_index)

theorem augment_args_without_index_witness:
  "rnn_args PNone ''exp_index'' = Some PNone \<and>
   fst (augment_args describe_values (rnn_args PNone)) = rnn_args PNone \<and>
   snd (augment_args describe_values (rnn_args PNone)) = Inr []"
  using augment_args_without_index [of "rnn_args PNone" describe_values]
  by (simp add: index_rnn_args hyper_rnn_args)

text \<open>
  The statement of C8 for every \<open>args\<close> fails: with an experiment type that is not
  recognised the assertion of \<open>exp_type_to_hyperparameters\<close> fails although
  \<open>exp_index\<close> is \<^verbatim>\<open>None\<close>.
\<close>

theorem augment_args_without_index_counterexample:
  "unknown_type_args ''exp_index'' = Some PNone \<and>
   snd (augment_args describe_values unknown_type_args) \<noteq> Inr [] \<and>
   snd (augment_args describe_values unknown_type_args) =
     Inl (AssertionError ''Unrecognized exp_type (%s)'')"
  by (simp add: unknown_type_args_def augment_args_def exp_type_to_hyperparameters_def
      bindE_def getattr_def)

text \<open>
  C4. With an integer \<open>exp_index\<close> and a hyperparameter set for the experiment type,
  \<open>augment_args\<close> fails with its assertion exactly when the index is negative or not
  less than the number of jobs; for an index in range it returns a parameter string.
\<close>

theorem augment_args_asserts_index_range:
  assumes "exp_type_to_hyperparameters a = Inr p" and "a ''exp_index'' = Some (PInt i)"
  shows "((\<exists>m. snd (augment_args describe a) = Inl (AssertionError m)) \<longleftrightarrow>
            i < 0 \<or> get_njobs (JobIterator p) \<le> i) \<and>
         (snd (augment_args describe a) = Inl (AssertionError ''exp_index out of range'') \<longleftrightarrow>
            i < 0 \<or> get_njobs (JobIterator p) \<le> i) \<and>
         ((\<exists>s. snd (augment_args describe a) = Inr s) \<longleftrightarrow>
            0 \<le> i \<and> i < get_njobs (JobIterator p))"
  by (auto simp: augment_int_index [OF assms])

theorem augment_args_asserts_index_range_witness:
  "exp_type_to_hyperparameters (rnn_args (PInt 5)) = Inr [(''rotation'', py_range 0 5)] \<and>
   rnn_args (PInt 5) ''exp_index'' = Some (PInt 5) \<and>
   get_njobs (JobIterator [(''rotation'', py_range 0 5)]) = 5 \<and>
   snd (augment_args describe_values (rnn_args (PInt 5))) =
     Inl (AssertionError ''exp_index out of range'') \<and>
   (\<exists>s. snd (augment_args describe_values (rnn_args (PInt 4))) = Inr s)"
  using augment_args_asserts_index_range
          [OF hyper_rnn_args [of "PInt 5"] index_rnn_args [of "PInt 5"],
           where describe = describe_values]
        augment_args_asserts_index_range
          [OF hyper_rnn_args [of "PInt 4"] index_rnn_args [of "PInt 4"],
           where describe = describe_values]
  by (simp add: hyper_rnn_args index_rnn_args njobs_rotation)

text \<open>
  C2. With an index in range, \<open>augment_args\<close> takes the combination that the index
  identifies, a member of the Cartesian product of the hyperparameter set, sets each
  attribute that the combination names to its value and leaves every other attribute as
  it is, and returns the parameter string of that combination. The indices from 0 to
  the number of jobs less one correspond one-to-one to the members of the product.
\<close>

theorem augment_args_sets_combination:
  assumes "exp_type_to_hyperparameters a = Inr p" and "a ''exp_index'' = Some (PInt i)"
    and "0 \<le> i" and "i < get_njobs (JobIterator p)"
  shows "(\<exists>c. get_index (JobIterator p) (PInt i) = Inr c \<and> is_combination p c \<and>
            augment_args describe a = (a ++ map_of c, Inr (describe c))) \<and>
         bij_betw (\<lambda>j. get_index (JobIterator p) (PInt j)) {0..<get_njobs (JobIterator p)}
           (Inr ` {c. is_combination p c})"
proof
  have p: "p = [(''rotation'', py_range 0 5)]"
    using assms(1) by (rule hyper_rotation)
  define c where "c = product (JobIterator p) ! nat i"
  have mem: "c \<in> set (product (JobIterator p))"
    using assms(3,4) by (simp add: c_def get_njobs_def)
  then have comb: "is_combination p c"
    by (simp add: JobIterator_def set_cartesian)
  have "rev c = c"
    using singleton_product_rotation mem unfolding p by fastforce
  then have "set_attributes a c = a ++ map_of c"
    by (simp add: set_attributes_conv)
  then have "augment_args describe a = (a ++ map_of c, Inr (describe c))"
    using assms(3,4) by (simp add: augment_int_index [OF assms(1,2)] c_def)
  moreover have "get_index (JobIterator p) (PInt i) = Inr c"
    using assms(3,4) by (simp add: c_def)
  ultimately show "\<exists>c. get_index (JobIterator p) (PInt i) = Inr c \<and> is_combination p c \<and>
      augment_args describe a = (a ++ map_of c, Inr (describe c))"
    using comb by blast
  have "set (product (JobIterator p)) = {c. is_combination p c}"
    by (auto simp: JobIterator_def set_cartesian)
  then show "bij_betw (\<lambda>j. get_index (JobIterator p) (PInt j)) {0..<get_njobs (JobIterator p)}
      (Inr ` {c. is_combination p c})"
    using get_index_bij [OF distinct_product_rotation] unfolding p by simp
qed

theorem augment_args_sets_combination_witness:
  "exp_type_to_hyperparameters (rnn_args (PInt 3)) = Inr [(''rotation'', py_range 0 5)] \<and>
   rnn_args (PInt 3) ''exp_index'' = Some (PInt 3) \<and>
   3 < get_njobs (JobIterator [(''rotation'', py_range 0 5)]) \<and>
   augment_args describe_values (rnn_args (PInt 3)) =
     ((rnn_args (PInt 3))(''rotation'' \<mapsto> PInt 3), Inr ''rotation_3_'')"
proof -
  have r: "(3::int) < get_njobs (JobIterator [(''rotation'', py_range 0 5)])"
    by (simp add: njobs_rotation)
  have g: "product (JobIterator [(''rotation'', py_range 0 5)]) ! 3 = [(''rotation'', PInt 3)]"
    by (simp add: product_rotation)
  have d: "str_int 3 = ''3''"
    by code_simp
  show ?thesis
    using augment_args_sets_combination
            [OF hyper_rnn_args [of "PInt 3"] index_rnn_args [of "PInt 3"] _ r,
             where describe = describe_values]
    by (auto simp: hyper_rnn_args index_rnn_args r g d)
qed

section \<open>Names of the output files\<close>

lemma generate_fname_rotation:
  "generate_fname (set_attributes a [(''rotation'', v)]) s = generate_fname a s'"
  by (simp add: generate_fname_def set_attributes_def setattr_def getattr_def)

lemma output_base_rotation:
  assumes "0 \<le> i" and "i < 5"
  shows "output_base describe (JobIterator [(''rotation'', py_range 0 5)]) a i = generate_fname a s"
proof -
  let ?ji = "JobIterator [(''rotation'', py_range 0 5)]"
  obtain v where v: "product ?ji ! nat i = [(''rotation'', v)]"
    using nth_product_rotation [OF assms] by blast
  show ?thesis
    using assms
    by (simp add: output_base_def set_attributes_by_index_def njobs_rotation v
        generate_fname_rotation [of a v _ s])
qed

lemma results_file_rotation:
  assumes "0 \<le> i" and "i < 5" and "generate_fname a s = Inr fbase"
  shows "results_file describe (JobIterator [(''rotation'', py_range 0 5)]) a i =
           Inr (results_fname fbase)"
  by (simp add: results_file_def output_base_rotation [OF assms(1,2), of describe a s] assms(3)
      bindE_def)

text \<open>
  C1 fails on the code. The docstring of \<open>generate_fname\<close> promises names that encode the
  key experimental parameters and are therefore unique, but the body that is not
  commented out uses the results path and the experiment type only: the jobs 0 and 1 of
  the sweep get the same base name.
\<close>

theorem generate_fname_same_for_jobs_0_and_1:
  "output_base describe_values (JobIterator [(''rotation'', py_range 0 5)]) (rnn_args PNone) 0 =
     Inr ''./results/rnn'' \<and>
   output_base describe_values (JobIterator [(''rotation'', py_range 0 5)]) (rnn_args PNone) 1 =
     Inr ''./results/rnn''"
proof -
  have g: "generate_fname (rnn_args PNone) [] = Inr ''./results/rnn''"
    by (simp add: generate_fname_def rnn_args_def getattr_def bindE_def)
  show ?thesis
    by (simp add: output_base_rotation [where s = "[]"] g)
qed

section \<open>The determinism of the sweep arithmetic\<close>

lemma augment_args_delta:
  assumes h: "exp_type_to_hyperparameters a = exp_type_to_hyperparameters b"
    and i: "getattr a ''exp_index'' = getattr b ''exp_index''"
  shows "\<exists>m r. augment_args describe a = (a ++ m, r) \<and> augment_args describe b = (b ++ m, r)"
proof (cases "exp_type_to_hyperparameters b")
  case (Inl e)
  show ?thesis
    by (intro exI [of _ Map.empty] exI [of _ "Inl e"]) (simp add: augment_args_def h Inl)
next
  case p: (Inr p)
  show ?thesis
  proof (cases "getattr b ''exp_index''")
    case (Inl e)
    show ?thesis
      by (intro exI [of _ Map.empty] exI [of _ "Inl e"]) (simp add: augment_args_def h i p Inl)
  next
    case index: (Inr index)
    show ?thesis
    proof (cases "index = PNone")
      case True
      show ?thesis
        by (intro exI [of _ Map.empty] exI [of _ "Inr []"])
          (simp add: augment_args_def h i p index True)
    next
      case not_none: False
      show ?thesis
      proof (cases "py_assert (index_in_range index (JobIterator p)) ''exp_index out of range''")
        case (Inl e)
        show ?thesis
          by (intro exI [of _ Map.empty] exI [of _ "Inl e"])
            (simp add: augment_args_def h i p index not_none Inl)
      next
        case ok: (Inr u)
        show ?thesis
        proof (cases "get_index (JobIterator p) index")
          case (Inl e)
          show ?thesis
            by (intro exI [of _ Map.empty] exI [of _ "Inl e"])
              (simp add: augment_args_def h i p index not_none ok Inl)
        next
          case (Inr c)
          show ?thesis
            by (intro exI [of _ "map_of (rev c)"] exI [of _ "Inr (describe c)"])
              (simp add: augment_args_def h i p index not_none ok Inr
                set_attributes_by_index_def set_attributes_conv)
        qed
      qed
    qed
  qed
qed

text \<open>
  C7. The conversion of the index and the generation of the file name read four
  attributes of \<open>args\<close> (\<open>exp_type\<close>, \<open>expt_type\<close>, \<open>exp_index\<close> and \<open>results_path\<close>) and
  nothing else: two namespaces that agree on them get the same outcome and parameter
  string, the same attribute assignments \<open>m\<close>, and the same file names, before and
  after the assignments. Two invocations with identical arguments are the case \<open>a = b\<close>.
\<close>

theorem sweep_arithmetic_deterministic:
  assumes "a ''exp_type'' = b ''exp_type''" and "a ''expt_type'' = b ''expt_type''"
    and "a ''exp_index'' = b ''exp_index''" and "a ''results_path'' = b ''results_path''"
  shows "snd (augment_args describe a) = snd (augment_args describe b) \<and>
         (\<exists>m. fst (augment_args describe a) = a ++ m \<and> fst (augment_args describe b) = b ++ m) \<and>
         generate_fname (fst (augment_args describe a)) s =
           generate_fname (fst (augment_args describe b)) s \<and>
         generate_fname a s = generate_fname b s"
proof -
  have t: "getattr a ''exp_type'' = getattr b ''exp_type''"
    and t': "getattr a ''expt_type'' = getattr b ''expt_type''"
    by (simp_all add: getattr_def assms(1,2))
  have h: "exp_type_to_hyperparameters a = exp_type_to_hyperparameters b"
    unfolding exp_type_to_hyperparameters_def t t' by (rule refl)
  have i: "getattr a ''exp_index'' = getattr b ''exp_index''"
    by (simp add: getattr_def assms(3))
  obtain m r where a: "augment_args describe a = (a ++ m, r)"
    and b: "augment_args describe b = (b ++ m, r)"
    using augment_args_delta [OF h i] by blast
  have f: "generate_fname (a ++ m') s = generate_fname (b ++ m') s" for m'
  proof -
    have "(a ++ m') ''results_path'' = (b ++ m') ''results_path''"
      by (cases "m' ''results_path''") (simp_all add: map_add_def assms(4))
    moreover have "(a ++ m') ''exp_type'' = (b ++ m') ''exp_type''"
      by (cases "m' ''exp_type''") (simp_all add: map_add_def assms(1))
    ultimately have "getattr (a ++ m') ''results_path'' = getattr (b ++ m') ''results_path''"
      and "getattr (a ++ m') ''exp_type'' = getattr (b ++ m') ''exp_type''"
      by (simp_all add: getattr_def)
    then show ?thesis
      unfolding generate_fname_def by simp
  qed
  have "generate_fname a s = generate_fname b s"
    using f [of Map.empty] by simp
  with a b f [of m] show ?thesis by auto
qed

theorem sweep_arithmetic_deterministic_witness:
  "rnn_args (PInt 3) ''exp_type'' = ((rnn_args (PInt 3))(''lrate'' \<mapsto> PInt 0)) ''exp_type'' \<and>
   rnn_args (PInt 3) ''expt_type'' = ((rnn_args (PInt 3))(''lrate'' \<mapsto> PInt 0)) ''expt_type'' \<and>
   rnn_args (PInt 3) ''exp_index'' = ((rnn_args (PInt 3))(''lrate'' \<mapsto> PInt 0)) ''exp_index'' \<and>
   rnn_args (PInt 3) ''results_path'' = ((rnn_args (PInt 3))(''lrate'' \<mapsto> PInt 0)) ''results_path'' \<and>
   snd (augment_args describe_values (rnn_args (PInt 3))) =
     snd (augment_args describe_values ((rnn_args (PInt 3))(''lrate'' \<mapsto> PInt 0))) \<and>
   generate_fname (rnn_args (PInt 3)) [] =
     generate_fname ((rnn_args (PInt 3))(''lrate'' \<mapsto> PInt 0)) []"
  using sweep_arithmetic_deterministic
          [of "rnn_args (PInt 3)" "(rnn_args (PInt 3))(''lrate'' \<mapsto> PInt 0)" describe_values "[]"]
  by simp

section \<open>The completeness check\<close>

lemma set_attributes_rotation_twice:
  "set_attributes (set_attributes a [(''rotation'', v)]) [(''rotation'', v')] =
     set_attributes a [(''rotation'', v')]"
  by (simp add: set_attributes_def setattr_def)

lemma completeness_loop_rotation:
  assumes "generate_fname a s = Inr fbase" and "\<forall>i \<in> set js. 0 \<le> i \<and> i < 5"
  shows "completeness_loop describe (JobIterator [(''rotation'', py_range 0 5)]) fs js a
           (out, indices) =
         (if js = [] then a
          else set_attributes a
                 (product (JobIterator [(''rotation'', py_range 0 5)]) ! nat (last js)),
          Inr (out @ map (missing_line (results_fname fbase))
                       [i \<leftarrow> js. \<not> path_exists fs (results_fname fbase)],
               indices @ [i \<leftarrow> js. \<not> path_exists fs (results_fname fbase)]))"
  using assms
proof (induction js arbitrary: a out indices)
  case Nil
  show ?case by simp
next
  case (Cons j js)
  let ?ji = "JobIterator [(''rotation'', py_range 0 5)]"
  have j: "0 \<le> j" "j < 5" using Cons.prems(2) by simp_all
  obtain v where v: "product ?ji ! nat j = [(''rotation'', v)]"
    using nth_product_rotation [OF j] by blast
  define a1 where "a1 = set_attributes a [(''rotation'', v)]"
  have step: "set_attributes_by_index describe ?ji (PInt j) a = (a1, Inr (describe [(''rotation'', v)]))"
    using j by (simp add: set_attributes_by_index_def njobs_rotation v a1_def)
  have g: "generate_fname a1 s' = Inr fbase" for s'
    unfolding a1_def using Cons.prems(1) by (simp add: generate_fname_rotation [of a v s' s])
  have rest: "\<forall>i \<in> set js. 0 \<le> i \<and> i < 5" using Cons.prems(2) by simp
  have last: "(if js = [] then a1 else set_attributes a1 (product ?ji ! nat (last js))) =
      set_attributes a (product ?ji ! nat (last (j # js)))"
  proof (cases "js = []")
    case True
    then show ?thesis by (simp add: a1_def v)
  next
    case False
    then have "last js \<in> set js" by simp
    then have "0 \<le> last js" "last js < 5" using rest by simp_all
    then obtain v' where "product ?ji ! nat (last js) = [(''rotation'', v')]"
      using nth_product_rotation by blast
    then show ?thesis
      using False by (simp add: a1_def set_attributes_rotation_twice)
  qed
  show ?case
  proof (cases "path_exists fs (results_fname fbase)")
    case True
    then show ?thesis
      using Cons.IH [OF g [of s] rest, of out indices] last
      by (simp add: step g Let_def)
  next
    case False
    then show ?thesis
      using Cons.IH [OF g [of s] rest,
          of "out @ [pad3 (str_int j) @ [CHR 0x09] @ results_fname fbase]" "indices @ [j]"] last
      by (simp add: step g missing_line_def Let_def)
  qed
qed

lemma check_completeness_rotation:
  assumes "exp_type_to_hyperparameters a = Inr p" and "generate_fname a s = Inr fbase"
  shows "check_completeness describe a fs =
           (set_attributes a [(''rotation'', PInt 4)],
            Inr ([''Total jobs: 5'', ''MISSING RUNS:''] @
                   map (missing_line (results_fname fbase))
                     [i \<leftarrow> [0, 1, 2, 3, 4]. \<not> path_exists fs (results_fname fbase)] @
                   [''Missing indices ('' @
                      str_int (int (length [i \<leftarrow> [0, 1, 2, 3, 4 :: int].
                                              \<not> path_exists fs (results_fname fbase)])) @
                      ''): '' @
                      join_commas (map str_int [i \<leftarrow> [0, 1, 2, 3, 4].
                                                   \<not> path_exists fs (results_fname fbase)])],
                 [i \<leftarrow> [0, 1, 2, 3, 4]. \<not> path_exists fs (results_fname fbase)]))"
proof -
  let ?ji = "JobIterator [(''rotation'', py_range 0 5)]"
  have p: "p = [(''rotation'', py_range 0 5)]"
    using assms(1) by (rule hyper_rotation)
  have u: "[0..get_njobs ?ji - 1] = [0, 1, 2, 3, 4]"
    by (simp add: njobs_rotation upto.simps)
  have t: "str_int (get_njobs ?ji) = ''5''"
    unfolding njobs_rotation by code_simp
  have l: "product ?ji ! nat (last [0, 1, 2, 3, 4]) = [(''rotation'', PInt 4)]"
    by (simp add: product_rotation)
  have loop: "completeness_loop describe ?ji fs [0, 1, 2, 3, 4] a (out, indices) =
      (set_attributes a [(''rotation'', PInt 4)],
       Inr (out @ map (missing_line (results_fname fbase))
                    [i \<leftarrow> [0, 1, 2, 3, 4]. \<not> path_exists fs (results_fname fbase)],
            indices @ [i \<leftarrow> [0, 1, 2, 3, 4]. \<not> path_exists fs (results_fname fbase)]))"
    for out indices
    using completeness_loop_rotation [OF assms(2), of "[0, 1, 2, 3, 4]" describe fs out indices]
    unfolding l by simp
  show ?thesis
    unfolding check_completeness_def assms(1) p sum.case Let_def u t loop prod.case
      missing_indices_def
    by simp
qed

text \<open>
  C3. When the experiment type maps to a hyperparameter set and a file name can be
  generated, \<open>check_completeness\<close> goes through the job indices from 0 to the number of
  jobs less one, in this order, and reports exactly those whose results file (the
  generated base name followed by \<open>_results.pkl\<close>) does not exist: an index of the sweep
  is absent from the reported list if and only if its results file exists. The report
  is the line with the number of jobs, the heading, one line with the index and the
  file name for every missing index, and the line that lists the missing indices;
  afterwards \<open>args\<close> holds the combination of the last job.
\<close>

theorem check_completeness_reports_missing:
  assumes "exp_type_to_hyperparameters a = Inr p" and "generate_fname a s = Inr fbase"
  shows "\<exists>indices.
           check_completeness describe a fs =
             (set_attributes a (product (JobIterator p) ! nat (get_njobs (JobIterator p) - 1)),
              Inr ([''Total jobs: '' @ str_int (get_njobs (JobIterator p)), ''MISSING RUNS:''] @
                     map (\<lambda>i. pad3 (str_int i) @ [CHR 0x09] @ results_fname fbase) indices @
                     [''Missing indices ('' @ str_int (int (length indices)) @ ''): '' @
                        join_commas (map str_int indices)],
                   indices)) \<and>
           indices = [i \<leftarrow> [0..get_njobs (JobIterator p) - 1].
                        file_missing fs (results_file describe (JobIterator p) a i)] \<and>
           (\<forall>i. 0 \<le> i \<and> i < get_njobs (JobIterator p) \<longrightarrow>
              results_file describe (JobIterator p) a i = Inr (results_fname fbase) \<and>
              (i \<notin> set indices \<longleftrightarrow> path_exists fs (results_fname fbase)))"
proof -
  let ?ji = "JobIterator [(''rotation'', py_range 0 5)]"
  let ?f = "results_fname fbase"
  have p: "p = [(''rotation'', py_range 0 5)]"
    using assms(1) by (rule hyper_rotation)
  have u: "[0..get_njobs ?ji - 1] = [0, 1, 2, 3, 4]"
    by (simp add: njobs_rotation upto.simps)
  have t: "str_int (get_njobs ?ji) = ''5''"
    unfolding njobs_rotation by code_simp
  have l: "product ?ji ! nat (get_njobs ?ji - 1) = [(''rotation'', PInt 4)]"
    by (simp add: njobs_rotation product_rotation)
  have r: "results_file describe ?ji a i = Inr ?f" if "0 \<le> i" "i < 5" for i
    using that assms(2) by (rule results_file_rotation)
  have m: "[i \<leftarrow> [0, 1, 2, 3, 4]. file_missing fs (results_file describe ?ji a i)] =
           [i \<leftarrow> [0, 1, 2, 3, 4]. \<not> path_exists fs ?f]"
    by (simp add: r file_missing_def)
  define indices :: "int list" where
    "indices = [i \<leftarrow> [0, 1, 2, 3, 4]. \<not> path_exists fs ?f]"
  have ml: "missing_line ?f = (\<lambda>i. pad3 (str_int i) @ [CHR 0x09] @ ?f)"
    by (simp add: missing_line_def fun_eq_iff)
  have c: "check_completeness describe a fs =
      (set_attributes a (product (JobIterator p) ! nat (get_njobs (JobIterator p) - 1)),
       Inr ([''Total jobs: '' @ str_int (get_njobs (JobIterator p)), ''MISSING RUNS:''] @
              map (\<lambda>i. pad3 (str_int i) @ [CHR 0x09] @ ?f) indices @
              [''Missing indices ('' @ str_int (int (length indices)) @ ''): '' @
                 join_commas (map str_int indices)],
            indices))"
    unfolding check_completeness_rotation [OF assms, of describe fs] p l t ml indices_def
    by simp
  have f: "indices = [i \<leftarrow> [0..get_njobs (JobIterator p) - 1].
                    file_missing fs (results_file describe (JobIterator p) a i)]"
    unfolding p u m indices_def by (rule refl)
  have e: "results_file describe ?ji a i = Inr ?f \<and> (i \<notin> set indices \<longleftrightarrow> path_exists fs ?f)"
    if "0 \<le> i" "i < 5" for i
  proof -
    have "i \<in> set [0, 1, 2, 3, 4]" using that by simp presburger
    then show ?thesis using r [OF that] by (simp add: indices_def)
  qed
  have a: "\<forall>i. 0 \<le> i \<and> i < get_njobs (JobIterator p) \<longrightarrow>
      results_file describe (JobIterator p) a i = Inr ?f \<and>
      (i \<notin> set indices \<longleftrightarrow> path_exists fs ?f)"
    unfolding p njobs_rotation using e by blast
  from c f a show ?thesis by blast
qed

theorem check_completeness_reports_missing_witness:
  "exp_type_to_hyperparameters (rnn_args PNone) = Inr [(''rotation'', py_range 0 5)] \<and>
   generate_fname (rnn_args PNone) [] = Inr ''./results/rnn'' \<and>
   check_completeness describe_values (rnn_args PNone) {} =
      ((rnn_args PNone)(''rotation'' \<mapsto> PInt 4),
       Inr ([''Total jobs: 5'', ''MISSING RUNS:'',
             ''  0'' @ [CHR 0x09] @ ''./results/rnn_results.pkl'',
             ''  1'' @ [CHR 0x09] @ ''./results/rnn_results.pkl'',
             ''  2'' @ [CHR 0x09] @ ''./results/rnn_results.pkl'',
             ''  3'' @ [CHR 0x09] @ ''./results/rnn_results.pkl'',
             ''  4'' @ [CHR 0x09] @ ''./results/rnn_results.pkl'',
             ''Missing indices (5): 0,1,2,3,4''],
            [0, 1, 2, 3, 4])) \<and>
   check_completeness describe_values (rnn_args PNone) {''./results/rnn_results.pkl''} =
      ((rnn_args PNone)(''rotation'' \<mapsto> PInt 4),
       Inr ([''Total jobs: 5'', ''MISSING RUNS:'', ''Missing indices (0): ''], []))"
proof -
  let ?ji = "JobIterator [(''rotation'', py_range 0 5)]"
  have g: "generate_fname (rnn_args PNone) [] = Inr ''./results/rnn''"
    by (simp add: generate_fname_def rnn_args_def getattr_def bindE_def)
  have u: "[0..get_njobs ?ji - 1] = [0, 1, 2, 3, 4]"
    by (simp add: njobs_rotation upto.simps)
  have t: "str_int (get_njobs ?ji) = ''5''" "str_int 0 = ''0''" "str_int 1 = ''1''"
    "str_int 2 = ''2''" "str_int 3 = ''3''" "str_int 4 = ''4''" "str_int 5 = ''5''"
    unfolding njobs_rotation by code_simp+
  have pd: "pad3 ''0'' = ''  0''" "pad3 ''1'' = ''  1''" "pad3 ''2'' = ''  2''"
    "pad3 ''3'' = ''  3''" "pad3 ''4'' = ''  4''"
    by code_simp+
  have l: "product ?ji ! nat (get_njobs ?ji - 1) = [(''rotation'', PInt 4)]"
    by (simp add: njobs_rotation product_rotation)
  have r: "results_file describe_values ?ji (rnn_args PNone) i = Inr ''./results/rnn_results.pkl''"
    if "0 \<le> i" "i < 5" for i
    using results_file_rotation [OF that g, of describe_values] by (simp add: results_fname_def)
  have m: "[i \<leftarrow> [0, 1, 2, 3, 4].
             file_missing fs (results_file describe_values ?ji (rnn_args PNone) i)] =
           [i \<leftarrow> [0, 1, 2, 3, 4]. ''./results/rnn_results.pkl'' \<notin> fs]" for fs
    by (simp add: r file_missing_def path_exists_def)
  have sa: "set_attributes (rnn_args PNone) [(''rotation'', PInt 4)] =
      (rnn_args PNone)(''rotation'' \<mapsto> PInt 4)"
    by (simp add: set_attributes_def setattr_def)
  have f: "results_fname ''./results/rnn'' = ''./results/rnn_results.pkl''"
    by (simp add: results_fname_def)
  show ?thesis
    using check_completeness_reports_missing [OF hyper_rnn_args [of PNone] g, of describe_values "{}"]
      check_completeness_reports_missing
        [OF hyper_rnn_args [of PNone] g, of describe_values "{''./results/rnn_results.pkl''}"]
    unfolding u m l sa f by (auto simp: hyper_rnn_args g t pd)
qed

text \<open>
  C6. When the experiment type maps to a hyperparameter set, the set is
  \<open>{'rotation': range(0, 5)}\<close> and the number of jobs is 5, the product of the sizes of the
  ranges. The completeness check reports 5 jobs and, given that a file name can be
  generated, runs through the indices 0 to 4: all five are reported when the results
  file is missing, and after the iteration for index \<open>k\<close> the namespace holds the
  combination of index \<open>k\<close>, at the end that of index 4. The combinations at these
  indices are, without repetition, the members of the Cartesian product.
\<close>

theorem rotation_sweep_has_five_jobs:
  assumes "exp_type_to_hyperparameters a = Inr p" and "generate_fname a s = Inr fbase"
  shows "get_njobs (JobIterator p) = 5 \<and>
         get_njobs (JobIterator p) = int (prod_list (map (\<lambda>(k, vs). length vs) p)) \<and>
         (\<exists>lines indices.
            check_completeness describe a fs =
              (set_attributes a (product (JobIterator p) ! 4),
               Inr ([''Total jobs: 5'', ''MISSING RUNS:''] @ lines, indices)) \<and>
            indices = (if path_exists fs (results_fname fbase) then [] else [0, 1, 2, 3, 4]) \<and>
            lines = map (\<lambda>i. pad3 (str_int i) @ [CHR 0x09] @ results_fname fbase) indices @
                    [''Missing indices ('' @ str_int (int (length indices)) @ ''): '' @
                       join_commas (map str_int indices)]) \<and>
         (\<forall>k. 0 \<le> k \<and> k < 5 \<longrightarrow>
            fst (completeness_loop describe (JobIterator p) fs [0..k] a (out, seen)) =
              set_attributes a (product (JobIterator p) ! nat k) \<and>
            get_index (JobIterator p) (PInt k) = Inr (product (JobIterator p) ! nat k)) \<and>
         length (product (JobIterator p)) = 5 \<and>
         distinct (product (JobIterator p)) \<and>
         set (product (JobIterator p)) = {c. is_combination p c}"
proof -
  let ?ji = "JobIterator [(''rotation'', py_range 0 5)]"
  let ?f = "results_fname fbase"
  have p: "p = [(''rotation'', py_range 0 5)]"
    using assms(1) by (rule hyper_rotation)
  have n: "get_njobs (JobIterator p) = 5"
    by (simp add: p njobs_rotation)
  have l: "get_njobs (JobIterator p) = int (prod_list (map (\<lambda>(k, vs). length vs) p))"
    by (simp add: get_njobs_def JobIterator_def length_cartesian)
  have p4: "product ?ji ! 4 = [(''rotation'', PInt 4)]"
    by (simp add: product_rotation)
  have ml: "missing_line ?f = (\<lambda>i. pad3 (str_int i) @ [CHR 0x09] @ ?f)"
    by (simp add: missing_line_def fun_eq_iff)
  define indices :: "int list" where
    "indices = (if path_exists fs ?f then [] else [0, 1, 2, 3, 4])"
  have i: "[i \<leftarrow> [0, 1, 2, 3, 4]. \<not> path_exists fs ?f] = indices"
    by (simp add: indices_def)
  have c: "check_completeness describe a fs =
      (set_attributes a (product (JobIterator p) ! 4),
       Inr ([''Total jobs: 5'', ''MISSING RUNS:''] @
              (map (\<lambda>i. pad3 (str_int i) @ [CHR 0x09] @ ?f) indices @
               [''Missing indices ('' @ str_int (int (length indices)) @ ''): '' @
                  join_commas (map str_int indices)]),
            indices))"
    unfolding check_completeness_rotation [OF assms, of describe fs] p p4 ml i by simp
  have k: "fst (completeness_loop describe (JobIterator p) fs [0..k] a (out, seen)) =
             set_attributes a (product (JobIterator p) ! nat k) \<and>
           get_index (JobIterator p) (PInt k) = Inr (product (JobIterator p) ! nat k)"
    if "0 \<le> k" "k < 5" for k
  proof -
    have "\<forall>i \<in> set [0..k]. 0 \<le> i \<and> i < 5" using that by simp
    moreover have "[0..k] \<noteq> []" "last [0..k] = k" using that by (simp_all add: upto_rec2)
    ultimately show ?thesis
      using completeness_loop_rotation [OF assms(2), of "[0..k]" describe fs out seen] that
      by (simp add: p njobs_rotation)
  qed
  have len: "length (product (JobIterator p)) = 5"
    by (simp add: p product_rotation)
  have d: "distinct (product (JobIterator p))"
    unfolding p by (rule distinct_product_rotation)
  have st: "set (product (JobIterator p)) = {c. is_combination p c}"
    by (auto simp: JobIterator_def set_cartesian)
  have e: "\<exists>lines indices'.
            check_completeness describe a fs =
              (set_attributes a (product (JobIterator p) ! 4),
               Inr ([''Total jobs: 5'', ''MISSING RUNS:''] @ lines, indices')) \<and>
            indices' = (if path_exists fs ?f then [] else [0, 1, 2, 3, 4]) \<and>
            lines = map (\<lambda>i. pad3 (str_int i) @ [CHR 0x09] @ ?f) indices' @
                    [''Missing indices ('' @ str_int (int (length indices')) @ ''): '' @
                       join_commas (map str_int indices')]"
    using c unfolding indices_def by blast
  from n l e k len d st show ?thesis by blast
qed

theorem rotation_sweep_has_five_jobs_witness:
  "exp_type_to_hyperparameters (rnn_args PNone) = Inr [(''rotation'', py_range 0 5)] \<and>
   generate_fname (rnn_args PNone) [] = Inr ''./results/rnn'' \<and>
   get_njobs (JobIterator [(''rotation'', py_range 0 5)]) = 5 \<and>
   distinct (product (JobIterator [(''rotation'', py_range 0 5)])) \<and>
   fst (completeness_loop describe_values (JobIterator [(''rotation'', py_range 0 5)]) {}
          [0..2] (rnn_args PNone) ([], [])) = (rnn_args PNone)(''rotation'' \<mapsto> PInt 2)"
proof -
  have g: "generate_fname (rnn_args PNone) [] = Inr ''./results/rnn''"
    by (simp add: generate_fname_def rnn_args_def getattr_def bindE_def)
  have p2: "product (JobIterator [(''rotation'', py_range 0 5)]) ! 2 = [(''rotation'', PInt 2)]"
    by (simp add: product_rotation)
  have sa: "set_attributes (rnn_args PNone) [(''rotation'', PInt 2)] =
      (rnn_args PNone)(''rotation'' \<mapsto> PInt 2)"
    by (simp add: set_attributes_def setattr_def)
  have "(0::int) \<le> 2 \<and> (2::int) < 5" by simp
  then show ?thesis
    using rotation_sweep_has_five_jobs
            [OF hyper_rnn_args [of PNone] g, of describe_values "{}" "[]" "[]"]
    by (simp add: hyper_rnn_args g p2 sa)
qed

section \<open>Running one experiment\<close>

subsection \<open>Quiet computations\<close>


















subsection \<open>The decision to skip a completed run\<close>





subsection \<open>Arguments with which the preparation returns\<close>































end
